theory Spec2Isabelle
  imports Main "HOL-Library.Sublist"
begin

section \<open>GenerateSW: the emission pass of the webpack plugin\<close>

text \<open>
  The development embeds \<^verbatim>\<open>src/generate-sw.js\<close>: the method \<^verbatim>\<open>handleEmit\<close> of the
  class \<^verbatim>\<open>GenerateSW\<close>. The method is straight-line glue around helper modules
  (\<^verbatim>\<open>./lib/*\<close>), the package \<^verbatim>\<open>workbox-build\<close> and Node's \<^verbatim>\<open>path\<close>, none of which
  is part of the sources at hand. They enter the model as the fields of a record of
  functions, \<open>helpers\<close>; the method is a function of that record, of \<^verbatim>\<open>this.config\<close>
  and of the webpack compilation. A rejected promise (an exception of a helper) is the
  left injection of a sum, and the compilation, which the method mutates, is returned
  in the state it has when the method settles.
\<close>

subsection \<open>Data\<close>

text \<open>
  Errors. The helpers throw plain \<^verbatim>\<open>Error\<close> objects; the model distinguishes the
  configuration errors the specification names from any other failure.
\<close>

datatype config_problem =
    MissingHashPlaceholder string
  | BundleNotFound string
  | BundleHasNoScript string

datatype error =
    ConfigurationError config_problem
  | OtherError string

text \<open>
  The value of \<^verbatim>\<open>config.importScripts\<close>: a single URL or an array of URLs.
\<close>

datatype import_scripts_value =
    OneUrl string
  | UrlList "string list"

text \<open>
  \<^verbatim>\<open>this.config\<close>, reduced to the fields \<^verbatim>\<open>handleEmit\<close> reads, \<^verbatim>\<open>importWorkboxFrom\<close>
  (read by the import resolver) and \<^verbatim>\<open>globPatterns\<close> (read back from the sanitized
  copy). A field that may be absent from the object is an \<open>option\<close>.
\<close>

record config =
  swDest :: string
  importsDirectory :: string
  precacheManifestFilename :: string
  importScripts :: import_scripts_value
  importWorkboxFrom :: string
  globPatterns :: "string list option"

text \<open>
  The webpack compilation: \<^verbatim>\<open>compilation.assets\<close> (an object used as a dictionary from
  output paths to assets), \<^verbatim>\<open>compilation.warnings\<close>,
  \<^verbatim>\<open>compilation.options.output.publicPath\<close> (possibly undefined),
  \<^verbatim>\<open>compilation.options.output.path\<close> and the named chunks with their files.
  The last two are only read by helpers.
\<close>

record 'a compilation =
  assets :: "string \<rightharpoonup> 'a"
  warnings :: "string list"
  publicPath :: "string option"
  outputPath :: string
  chunks :: "string \<rightharpoonup> string list"

text \<open>
  The object handed to \<^verbatim>\<open>generateSWString\<close>. Only the three properties that
  \<^verbatim>\<open>handleEmit\<close> reads or writes are fields; \<^verbatim>\<open>importScripts\<close> and
  \<^verbatim>\<open>workboxSWImport\<close> are overwritten (lines 106-107) before anything reads them, so
  they have the types of the values written.
\<close>

record sanitized_config =
  sanitized_globPatterns :: "string list option"
  sanitized_importScripts :: "string list"
  sanitized_workboxSWImport :: "string option"

type_synonym manifest_entry = "string \<times> string option"

text \<open>
  The modules \<^verbatim>\<open>handleEmit\<close> calls. \<^verbatim>\<open>getWorkboxSWImports\<close> and \<^verbatim>\<open>generateSWString\<close>
  are awaited and may reject; \<^verbatim>\<open>formatManifestFilename\<close> may throw. The resolver
  returns \<^verbatim>\<open>null\<close> (\<open>None\<close>) or an array of URLs. \<^verbatim>\<open>generateSWString\<close> resolves to
  \<^verbatim>\<open>{swString, warnings}\<close>, where \<^verbatim>\<open>warnings\<close> may be missing. \<^verbatim>\<open>path.sep\<close> is a
  single character on every platform. The helpers are functions of their arguments:
  they read the compilation and the configuration and assign to neither, and apart
  from the three named above they do not throw.
\<close>

record 'a helpers =
  warnAboutConfig :: "config \<Rightarrow> string option"
  getWorkboxSWImports :: "'a compilation \<Rightarrow> config \<Rightarrow> error + string list option"
  getManifestEntriesFromCompilation :: "'a compilation \<Rightarrow> config \<Rightarrow> manifest_entry list"
  stringifyManifest :: "manifest_entry list \<Rightarrow> string"
  convertStringToAsset :: "string \<Rightarrow> 'a"
  getAssetHash :: "'a \<Rightarrow> string"
  formatManifestFilename :: "string \<Rightarrow> string \<Rightarrow> error + string"
  relativeToOutputPath :: "'a compilation \<Rightarrow> string \<Rightarrow> string"
  forGenerateSWString :: "config \<Rightarrow> sanitized_config"
  generateSWString :: "sanitized_config \<Rightarrow> error + (string \<times> string list option)"
  path_join :: "string \<Rightarrow> string \<Rightarrow> string"
  path_sep :: char

text \<open>
  What one call of \<^verbatim>\<open>handleEmit\<close> leaves behind: whether the promise resolved or
  rejected, the compilation as mutated so far, and the argument of the call of
  \<^verbatim>\<open>generateSWString\<close> if the run got that far.
\<close>

record 'a outcome =
  result :: "error + unit"
  final :: "'a compilation"
  sent :: "sanitized_config option"

subsection \<open>JavaScript idioms\<close>

text \<open>
  \<^verbatim>\<open>[].concat(v)\<close>: \<^verbatim>\<open>Array.prototype.concat\<close> copies the receiver and then, for each
  argument in turn, appends its elements if it is an array and the argument itself
  otherwise.
\<close>

fun js_concat :: "string list \<Rightarrow> import_scripts_value list \<Rightarrow> string list" where
  "js_concat acc [] = acc"
| "js_concat acc (OneUrl u # vs) = js_concat (acc @ [u]) vs"
| "js_concat acc (UrlList us # vs) = js_concat (acc @ us) vs"

text \<open>\<^verbatim>\<open>x || ''\<close> on a string that may be undefined.\<close>

definition or_empty :: "string option \<Rightarrow> string" where
  "or_empty x = (case x of None \<Rightarrow> [] | Some s \<Rightarrow> (if s = [] then [] else s))"

text \<open>\<^verbatim>\<open>x || []\<close> on an array that may be undefined: every array is truthy.\<close>

definition or_nil :: "'b list option \<Rightarrow> 'b list" where
  "or_nil x = (case x of None \<Rightarrow> [] | Some xs \<Rightarrow> xs)"

text \<open>
  \<^verbatim>\<open>s.split(sep)\<close> for a one-character separator: the pieces between the occurrences
  of the separator, empty pieces included.
\<close>

fun js_split :: "char \<Rightarrow> string \<Rightarrow> string list" where
  "js_split sep [] = [[]]"
| "js_split sep (c # cs) =
     (if c = sep then [] # js_split sep cs
      else (case js_split sep cs of
              [] \<Rightarrow> [[c]]
            | w # ws \<Rightarrow> (c # w) # ws))"

text \<open>\<^verbatim>\<open>parts.join(d)\<close>.\<close>

fun js_join :: "string \<Rightarrow> string list \<Rightarrow> string" where
  "js_join d [] = []"
| "js_join d [w] = w"
| "js_join d (w # v # ws) = w @ d @ js_join d (v # ws)"

subsection \<open>The emission pass\<close>

text \<open>
  Lines 63-66: the configuration warning, pushed when it is truthy (the empty string
  is not).
\<close>

definition pushConfigWarning :: "'a helpers \<Rightarrow> config \<Rightarrow> 'a compilation \<Rightarrow> 'a compilation" where
  "pushConfigWarning h cfg compilation =
     (case warnAboutConfig h cfg of
        None \<Rightarrow> compilation
      | Some configWarning \<Rightarrow>
          (if configWarning = [] then compilation
           else compilation\<lparr>warnings := warnings compilation @ [configWarning]\<rparr>))"

text \<open>Lines 70 and 73-74: the manifest asset.\<close>

definition manifestAssetOf :: "'a helpers \<Rightarrow> config \<Rightarrow> 'a compilation \<Rightarrow> 'a" where
  "manifestAssetOf h cfg compilation =
     (let entries = getManifestEntriesFromCompilation h compilation cfg;
          manifestString = stringifyManifest h entries
      in convertStringToAsset h manifestString)"

text \<open>Lines 79-80: where the manifest goes, relative to the output directory.\<close>

definition pathToManifestFileOf :: "'a helpers \<Rightarrow> config \<Rightarrow> 'a compilation \<Rightarrow> string \<Rightarrow> string" where
  "pathToManifestFileOf h cfg compilation manifestFilename =
     relativeToOutputPath h compilation (path_join h (importsDirectory cfg) manifestFilename)"

text \<open>Lines 83-84: the URL under which the generated script imports the manifest.\<close>

definition manifestURL :: "'a helpers \<Rightarrow> 'a compilation \<Rightarrow> string \<Rightarrow> string" where
  "manifestURL h compilation pathToManifestFile =
     or_empty (publicPath compilation) @ js_join ''/'' (js_split (path_sep h) pathToManifestFile)"

text \<open>Lines 75-78: the manifest's file name, from the hash of the manifest asset.\<close>

definition manifestFilenameOf :: "'a helpers \<Rightarrow> config \<Rightarrow> 'a compilation \<Rightarrow> error + string" where
  "manifestFilenameOf h cfg compilation =
     (let manifestAsset = manifestAssetOf h cfg compilation;
          manifestHash = getAssetHash h manifestAsset
      in formatManifestFilename h (precacheManifestFilename cfg) manifestHash)"

text \<open>
  \<^verbatim>\<open>handleEmit\<close>, lines 62-113. The names are those of the source; a variable that
  is assigned again carries a digit. \<^verbatim>\<open>importScriptsArray.unshift(...urls)\<close> puts the
  URLs in front, in their order.
\<close>

definition handleEmit :: "'a helpers \<Rightarrow> config \<Rightarrow> 'a compilation \<Rightarrow> 'a outcome" where
  "handleEmit h cfg compilation0 =
     (let compilation1 = pushConfigWarning h cfg compilation0 in
      case getWorkboxSWImports h compilation1 cfg of
        Inl e \<Rightarrow> \<lparr>result = Inl e, final = compilation1, sent = None\<rparr>
      | Inr workboxSWImports \<Rightarrow>
          (let importScriptsArray1 = js_concat [] [importScripts cfg];
               manifestAsset = manifestAssetOf h cfg compilation1
           in case manifestFilenameOf h cfg compilation1 of
                Inl e \<Rightarrow> \<lparr>result = Inl e, final = compilation1, sent = None\<rparr>
              | Inr manifestFilename \<Rightarrow>
                  (let pathToManifestFile =
                         pathToManifestFileOf h cfg compilation1 manifestFilename;
                       compilation2 = compilation1
                         \<lparr>assets := (assets compilation1)(pathToManifestFile \<mapsto> manifestAsset)\<rparr>;
                       importScriptsArray2 =
                         importScriptsArray1 @ [manifestURL h compilation2 pathToManifestFile];
                       (workboxSWImport, importScriptsArray3) =
                         (case workboxSWImports of
                            None \<Rightarrow> (None, importScriptsArray2)
                          | Some urls \<Rightarrow>
                              (if length urls = 1 then (Some (urls ! 0), importScriptsArray2)
                               else (None, urls @ importScriptsArray2)));
                       sanitizedConfig1 = forGenerateSWString h cfg;
                       sanitizedConfig2 = sanitizedConfig1
                         \<lparr>sanitized_globPatterns :=
                            Some (or_nil (sanitized_globPatterns sanitizedConfig1))\<rparr>;
                       sanitizedConfig3 = sanitizedConfig2
                         \<lparr>sanitized_importScripts := importScriptsArray3\<rparr>;
                       sanitizedConfig4 = sanitizedConfig3
                         \<lparr>sanitized_workboxSWImport := workboxSWImport\<rparr>
                   in case generateSWString h sanitizedConfig4 of
                        Inl e \<Rightarrow>
                          \<lparr>result = Inl e, final = compilation2, sent = Some sanitizedConfig4\<rparr>
                      | Inr (swString, generated_warnings) \<Rightarrow>
                          (let compilation3 = compilation2
                                 \<lparr>warnings := warnings compilation2 @ or_nil generated_warnings\<rparr>;
                               relSwDest = relativeToOutputPath h compilation3 (swDest cfg);
                               compilation4 = compilation3
                                 \<lparr>assets := (assets compilation3)
                                    (relSwDest \<mapsto> convertStringToAsset h swString)\<rparr>
                           in \<lparr>result = Inr (), final = compilation4,
                               sent = Some sanitizedConfig4\<rparr>))))"

subsection \<open>Helpers that are not among the sources\<close>

text \<open>
  Modelled from the spec: \<^verbatim>\<open>lib/format-manifest-filename.js\<close> is missing. The
  specification (4.3, Manifest Artifact Namer) has \<open>name(template, hash)\<close> substitute
  the digest for the hash placeholder of the template and fail, with a configuration
  error, when the template contains no placeholder. The specification does not spell
  the placeholder token, which is a parameter here.
\<close>

fun replace_first :: "string \<Rightarrow> string \<Rightarrow> string \<Rightarrow> string option" where
  "replace_first tok rep [] = (if tok = [] then Some rep else None)"
| "replace_first tok rep (c # cs) =
     (if prefix tok (c # cs) then Some (rep @ drop (length tok) (c # cs))
      else map_option ((#) c) (replace_first tok rep cs))"

definition formatManifestFilename_spec :: "string \<Rightarrow> string \<Rightarrow> string \<Rightarrow> error + string" where
  "formatManifestFilename_spec placeholder template manifestHash =
     (case replace_first placeholder manifestHash template of
        None \<Rightarrow> Inl (ConfigurationError (MissingHashPlaceholder template))
      | Some manifestFilename \<Rightarrow> Inr manifestFilename)"

text \<open>
  Modelled from the spec: \<^verbatim>\<open>lib/get-workbox-sw-imports.js\<close> is missing. The
  specification (4.4, Runtime-Import Resolver) gives a state machine over
  \<^verbatim>\<open>importWorkboxFrom\<close>: \<^verbatim>\<open>disabled\<close> yields no URL, \<^verbatim>\<open>cdn\<close> one fixed external
  URL, \<^verbatim>\<open>local\<close> one URL of the bundled copy; any other value names a bundle of the
  build, which must exist, and whose script files are yielded (one or several); a
  bundle without script files is a configuration error. The two fixed URLs and the
  test for a script file are parameters.
\<close>

definition getWorkboxSWImports_spec ::
  "string \<Rightarrow> string \<Rightarrow> (string \<Rightarrow> bool) \<Rightarrow> 'a compilation \<Rightarrow> config
     \<Rightarrow> error + string list option" where
  "getWorkboxSWImports_spec cdnUrl localUrl isScript compilation cfg =
     (if importWorkboxFrom cfg = ''disabled'' then Inr None
      else if importWorkboxFrom cfg = ''cdn'' then Inr (Some [cdnUrl])
      else if importWorkboxFrom cfg = ''local'' then Inr (Some [localUrl])
      else (case chunks compilation (importWorkboxFrom cfg) of
              None \<Rightarrow> Inl (ConfigurationError (BundleNotFound (importWorkboxFrom cfg)))
            | Some files \<Rightarrow>
                (case filter isScript files of
                   [] \<Rightarrow> Inl (ConfigurationError (BundleHasNoScript (importWorkboxFrom cfg)))
                 | script # scripts \<Rightarrow> Inr (Some (script # scripts)))))"

text \<open>
  Modelled from the spec: \<^verbatim>\<open>lib/sanitize-config.js\<close> is missing. The specification
  (4.5, Configuration Sanitizer) has it project the configuration onto the fields the
  generation service accepts, dropping \<^verbatim>\<open>swDest\<close>, \<^verbatim>\<open>importsDirectory\<close> and
  \<^verbatim>\<open>precacheManifestFilename\<close>; \<^verbatim>\<open>globPatterns\<close> is kept as it is.
\<close>

definition forGenerateSWString_spec :: "config \<Rightarrow> sanitized_config" where
  "forGenerateSWString_spec cfg =
     \<lparr>sanitized_globPatterns = globPatterns cfg,
      sanitized_importScripts = js_concat [] [importScripts cfg],
      sanitized_workboxSWImport = None\<rparr>"

subsection \<open>A sample build\<close>

text \<open>
  A concrete set of helpers, two configurations and a compilation, on which the
  theorems below are instantiated. Assets are their source texts. The helpers use the
  Windows path separator, so that the manifest's path and its URL differ.
\<close>

definition backslash :: char where
  "backslash = CHR 0x5C"

definition sample_helpers :: "string helpers" where
  "sample_helpers =
     \<lparr>warnAboutConfig = (\<lambda>cfg. None),
      getWorkboxSWImports =
        getWorkboxSWImports_spec ''https://cdn.example/workbox-sw.js''
          ''workbox-v3/workbox-sw.js'' (\<lambda>file. suffix ''.js'' file),
      getManifestEntriesFromCompilation = (\<lambda>compilation cfg. [(''app.js'', Some ''r1'')]),
      stringifyManifest = (\<lambda>entries. concat (map fst entries)),
      convertStringToAsset = (\<lambda>text. text),
      getAssetHash = (\<lambda>asset. ''abc123''),
      formatManifestFilename = formatManifestFilename_spec ''[manifestHash]'',
      relativeToOutputPath = (\<lambda>compilation p. p),
      forGenerateSWString = forGenerateSWString_spec,
      generateSWString = (\<lambda>sanitized. Inr (''importScripts()'', None)),
      path_join = (\<lambda>dir file. dir @ [backslash] @ file),
      path_sep = backslash\<rparr>"

definition sample_config :: config where
  "sample_config =
     \<lparr>swDest = ''service-worker.js'',
      importsDirectory = ''wb'',
      precacheManifestFilename = ''precache-manifest.[manifestHash].js'',
      importScripts = UrlList [''extra.js''],
      importWorkboxFrom = ''cdn'',
      globPatterns = None\<rparr>"

definition sample_compilation :: "string compilation" where
  "sample_compilation =
     \<lparr>assets = [''app.js'' \<mapsto> ''console.log(1)''],
      warnings = [],
      publicPath = Some ''/static/'',
      outputPath = ''/dist'',
      chunks = [''workbox'' \<mapsto> [''a.js'', ''b.js''], ''styles'' \<mapsto> [''main.css'']]\<rparr>"

text \<open>Variants of the sample configuration.\<close>

definition bundle_config :: config where
  "bundle_config = sample_config\<lparr>importWorkboxFrom := ''workbox''\<rparr>"

definition disabled_config :: config where
  "disabled_config = sample_config\<lparr>importWorkboxFrom := ''disabled''\<rparr>"

definition styles_config :: config where
  "styles_config = sample_config\<lparr>importWorkboxFrom := ''styles''\<rparr>"

definition static_name_config :: config where
  "static_name_config = sample_config\<lparr>precacheManifestFilename := ''manifest.js''\<rparr>"

definition single_url_config :: config where
  "single_url_config = sample_config\<lparr>importScripts := OneUrl ''extra.js''\<rparr>"

definition globs_config :: config where
  "globs_config = sample_config\<lparr>globPatterns := Some [''**/*.html'']\<rparr>"

definition two_urls_config :: config where
  "two_urls_config = sample_config\<lparr>importScripts := UrlList [''first.js'', ''second.js'']\<rparr>"

definition bare_compilation :: "string compilation" where
  "bare_compilation = sample_compilation\<lparr>publicPath := None\<rparr>"

definition cdn_declared_config :: config where
  "cdn_declared_config =
     sample_config\<lparr>importScripts := UrlList [''https://cdn.example/workbox-sw.js'']\<rparr>"

definition overwrite_config :: config where
  "overwrite_config =
     sample_config\<lparr>swDest := ''wb'' @ [backslash] @ ''precache-manifest.abc123.js''\<rparr>"

section \<open>Properties\<close>

subsection \<open>Auxiliary facts\<close>

lemma js_concat_single:
  "js_concat [] [v] = (case v of OneUrl u \<Rightarrow> [u] | UrlList us \<Rightarrow> us)"
  by (cases v) simp_all

lemma js_split_not_Nil: "js_split sep s \<noteq> []"
  by (induction s) (auto split: list.splits)

lemma js_join_split: "js_join [d] (js_split sep s) = map (\<lambda>c. if c = sep then d else c) s"
proof (induction s)
  case Nil
  show ?case by simp
next
  case (Cons c cs)
  obtain w ws where sp: "js_split sep cs = w # ws"
    using js_split_not_Nil [of sep cs] by (cases "js_split sep cs") auto
  show ?case
  proof (cases "c = sep")
    case True
    with Cons sp show ?thesis by simp
  next
    case False
    with Cons sp show ?thesis by (cases ws) auto
  qed
qed

lemma replace_first_None: "replace_first tok rep s = None \<longleftrightarrow> \<not> sublist tok s"
  by (induction s) (auto simp: sublist_Cons_right)

lemma pushConfigWarning_fields [simp]:
  "publicPath (pushConfigWarning h cfg c) = publicPath c"
  "assets (pushConfigWarning h cfg c) = assets c"
  "chunks (pushConfigWarning h cfg c) = chunks c"
  "outputPath (pushConfigWarning h cfg c) = outputPath c"
  by (simp_all add: pushConfigWarning_def split: option.splits)

lemma handleEmit_resolver_rejects:
  assumes "getWorkboxSWImports h (pushConfigWarning h cfg c) cfg = Inl e"
  shows "handleEmit h cfg c =
           \<lparr>result = Inl e, final = pushConfigWarning h cfg c, sent = None\<rparr>"
  using assms by (simp add: handleEmit_def)

lemma handleEmit_formatter_throws:
  assumes "getWorkboxSWImports h (pushConfigWarning h cfg c) cfg = Inr ws"
    and "manifestFilenameOf h cfg (pushConfigWarning h cfg c) = Inl e"
  shows "handleEmit h cfg c =
           \<lparr>result = Inl e, final = pushConfigWarning h cfg c, sent = None\<rparr>"
  using assms by (simp add: handleEmit_def Let_def)

lemma handleEmit_sent:
  assumes "getWorkboxSWImports h (pushConfigWarning h cfg c) cfg = Inr ws"
    and "manifestFilenameOf h cfg (pushConfigWarning h cfg c) = Inr fname"
  shows "sent (handleEmit h cfg c) = Some
           \<lparr>sanitized_globPatterns =
              Some (or_nil (sanitized_globPatterns (forGenerateSWString h cfg))),
            sanitized_importScripts =
              (case ws of None \<Rightarrow> [] | Some urls \<Rightarrow> if length urls = 1 then [] else urls)
              @ js_concat [] [importScripts cfg]
              @ [manifestURL h c (pathToManifestFileOf h cfg (pushConfigWarning h cfg c) fname)],
            sanitized_workboxSWImport =
              (case ws of None \<Rightarrow> None
               | Some urls \<Rightarrow> if length urls = 1 then Some (urls ! 0) else None)\<rparr>"
  using assms
  by (simp add: handleEmit_def Let_def manifestURL_def split: sum.splits option.splits prod.splits)

lemma handleEmit_final_assets:
  assumes "getWorkboxSWImports h (pushConfigWarning h cfg c) cfg = Inr ws"
    and "manifestFilenameOf h cfg (pushConfigWarning h cfg c) = Inr fname"
    and "sent (handleEmit h cfg c) = Some sc"
  shows "assets (final (handleEmit h cfg c)) =
           (case generateSWString h sc of
              Inl e \<Rightarrow>
                (assets c)(pathToManifestFileOf h cfg (pushConfigWarning h cfg c) fname
                   \<mapsto> manifestAssetOf h cfg (pushConfigWarning h cfg c))
            | Inr (swString, generated_warnings) \<Rightarrow>
                (assets c)(pathToManifestFileOf h cfg (pushConfigWarning h cfg c) fname
                   \<mapsto> manifestAssetOf h cfg (pushConfigWarning h cfg c),
                 relativeToOutputPath h
                   ((pushConfigWarning h cfg c)
                      \<lparr>assets := (assets c)
                         (pathToManifestFileOf h cfg (pushConfigWarning h cfg c) fname
                            \<mapsto> manifestAssetOf h cfg (pushConfigWarning h cfg c)),
                       warnings := warnings (pushConfigWarning h cfg c)
                                     @ or_nil generated_warnings\<rparr>)
                   (swDest cfg)
                   \<mapsto> convertStringToAsset h swString))"
  using assms
  by (auto simp add: handleEmit_def Let_def split: sum.splits option.splits prod.splits if_splits)

lemma handleEmit_result:
  assumes "getWorkboxSWImports h (pushConfigWarning h cfg c) cfg = Inr ws"
    and "manifestFilenameOf h cfg (pushConfigWarning h cfg c) = Inr fname"
    and "sent (handleEmit h cfg c) = Some sc"
  shows "result (handleEmit h cfg c) =
           (case generateSWString h sc of Inl e \<Rightarrow> Inl e | Inr r \<Rightarrow> Inr ())"
  using assms
  by (auto simp add: handleEmit_def Let_def split: sum.splits option.splits prod.splits if_splits)

text \<open>What the helpers modelled from the specification return.\<close>

lemma resolver_spec_single_url:
  "importWorkboxFrom cfg = ''cdn'' \<Longrightarrow>
     getWorkboxSWImports_spec cdnUrl localUrl isScript c cfg = Inr (Some [cdnUrl])"
  "importWorkboxFrom cfg = ''local'' \<Longrightarrow>
     getWorkboxSWImports_spec cdnUrl localUrl isScript c cfg = Inr (Some [localUrl])"
  "importWorkboxFrom cfg \<notin> {''disabled'', ''cdn'', ''local''} \<Longrightarrow>
   chunks c (importWorkboxFrom cfg) = Some files \<Longrightarrow> filter isScript files = [script] \<Longrightarrow>
     getWorkboxSWImports_spec cdnUrl localUrl isScript c cfg = Inr (Some [script])"
  by (simp_all add: getWorkboxSWImports_spec_def)

lemma resolver_spec_disabled:
  "importWorkboxFrom cfg = ''disabled'' \<Longrightarrow>
     getWorkboxSWImports_spec cdnUrl localUrl isScript c cfg = Inr None"
  by (simp add: getWorkboxSWImports_spec_def)

lemma manifestFilenameOf_spec_no_placeholder:
  assumes "formatManifestFilename h = formatManifestFilename_spec placeholder"
    and "\<not> sublist placeholder (precacheManifestFilename cfg)"
  shows "manifestFilenameOf h cfg c1 =
           Inl (ConfigurationError (MissingHashPlaceholder (precacheManifestFilename cfg)))"
proof -
  from assms(2) have "replace_first placeholder x (precacheManifestFilename cfg) = None" for x
    by (simp add: replace_first_None)
  with assms(1) show ?thesis
    by (simp add: manifestFilenameOf_def formatManifestFilename_spec_def Let_def)
qed

text \<open>
  \<^verbatim>\<open>handleEmit\<close> has no guard of its own against an empty array from the resolver:
  such a run goes on without \<^verbatim>\<open>workboxSWImport\<close> and with nothing put in front.
\<close>

lemma handleEmit_empty_array_proceeds:
  assumes "getWorkboxSWImports h (pushConfigWarning h cfg c) cfg = Inr (Some [])"
    and "manifestFilenameOf h cfg (pushConfigWarning h cfg c) = Inr fname"
  shows "\<exists>sc. sent (handleEmit h cfg c) = Some sc
           \<and> sanitized_workboxSWImport sc = None
           \<and> sanitized_importScripts sc =
               (case importScripts cfg of OneUrl u \<Rightarrow> [u] | UrlList us \<Rightarrow> us)
               @ [manifestURL h c (pathToManifestFileOf h cfg (pushConfigWarning h cfg c) fname)]"
  using handleEmit_sent [OF assms] by (simp add: js_concat_single)

subsection \<open>Facts about the sample build\<close>

lemmas config_defs =
  sample_config_def bundle_config_def disabled_config_def styles_config_def
  static_name_config_def single_url_config_def globs_config_def two_urls_config_def

lemmas sample_defs = sample_helpers_def sample_compilation_def config_defs

lemma sample_no_warning [simp]: "pushConfigWarning sample_helpers cfg c = c"
  by (simp add: pushConfigWarning_def sample_helpers_def)

lemma sample_resolver:
  "getWorkboxSWImports sample_helpers sample_compilation sample_config
     = Inr (Some [''https://cdn.example/workbox-sw.js''])"
  "getWorkboxSWImports sample_helpers sample_compilation single_url_config
     = Inr (Some [''https://cdn.example/workbox-sw.js''])"
  "getWorkboxSWImports sample_helpers sample_compilation static_name_config
     = Inr (Some [''https://cdn.example/workbox-sw.js''])"
  "getWorkboxSWImports sample_helpers sample_compilation bundle_config
     = Inr (Some [''a.js'', ''b.js''])"
  "getWorkboxSWImports sample_helpers sample_compilation disabled_config = Inr None"
  "getWorkboxSWImports sample_helpers (sample_compilation\<lparr>publicPath := None\<rparr>) sample_config
     = Inr (Some [''https://cdn.example/workbox-sw.js''])"
  by (simp_all add: sample_defs getWorkboxSWImports_spec_def suffix_to_prefix)

lemma sample_filename:
  "precacheManifestFilename cfg = ''precache-manifest.[manifestHash].js''
   \<Longrightarrow> manifestFilenameOf sample_helpers cfg c = Inr ''precache-manifest.abc123.js''"
  by (simp add: sample_helpers_def manifestFilenameOf_def formatManifestFilename_spec_def Let_def)

lemma sample_filenames:
  "manifestFilenameOf sample_helpers sample_config c = Inr ''precache-manifest.abc123.js''"
  "manifestFilenameOf sample_helpers bundle_config c = Inr ''precache-manifest.abc123.js''"
  "manifestFilenameOf sample_helpers disabled_config c = Inr ''precache-manifest.abc123.js''"
  "manifestFilenameOf sample_helpers single_url_config c = Inr ''precache-manifest.abc123.js''"
  by (simp_all add: sample_filename config_defs)

lemma sample_path:
  "importsDirectory cfg = ''wb'' \<Longrightarrow>
   pathToManifestFileOf sample_helpers cfg c f = ''wb'' @ [backslash] @ f"
  by (simp add: sample_helpers_def pathToManifestFileOf_def)

lemma sample_url:
  "importsDirectory cfg = ''wb'' \<Longrightarrow>
   manifestURL sample_helpers sample_compilation
     (pathToManifestFileOf sample_helpers cfg c ''precache-manifest.abc123.js'')
   = ''/static/wb/precache-manifest.abc123.js''"
  by (simp add: sample_path)
     (simp add: sample_helpers_def sample_compilation_def manifestURL_def or_empty_def backslash_def)

lemma sample_resolver_cdn:
  "importWorkboxFrom cfg = ''cdn'' \<Longrightarrow>
   getWorkboxSWImports sample_helpers c cfg = Inr (Some [''https://cdn.example/workbox-sw.js''])"
  by (simp add: sample_helpers_def getWorkboxSWImports_spec_def)

lemma sample_slashes:
  "importsDirectory cfg = ''wb'' \<Longrightarrow>
   map (\<lambda>ch. if ch = path_sep sample_helpers then CHR ''/'' else ch)
     (pathToManifestFileOf sample_helpers cfg c ''precache-manifest.abc123.js'')
   = ''wb/precache-manifest.abc123.js''"
  by (simp add: pathToManifestFileOf_def sample_helpers_def backslash_def)

lemma sample_manifest_asset: "manifestAssetOf sample_helpers cfg c = ''app.js''"
  by (simp add: manifestAssetOf_def sample_helpers_def)

lemma sample_relative: "relativeToOutputPath sample_helpers c p = p"
  "path_join sample_helpers dir file = dir @ [backslash] @ file"
  "convertStringToAsset sample_helpers text = text"
  "generateSWString sample_helpers sc = Inr (''importScripts()'', None)"
  by (simp_all add: sample_helpers_def)

lemmas config_defs2 = config_defs cdn_declared_config_def overwrite_config_def

lemma overwrite_facts:
  "getWorkboxSWImports sample_helpers
     (pushConfigWarning sample_helpers overwrite_config sample_compilation) overwrite_config
   = Inr (Some [''https://cdn.example/workbox-sw.js''])"
  "manifestFilenameOf sample_helpers overwrite_config
     (pushConfigWarning sample_helpers overwrite_config sample_compilation)
   = Inr ''precache-manifest.abc123.js''"
  "importsDirectory overwrite_config = ''wb''"
  "swDest overwrite_config = ''wb'' @ [backslash] @ ''precache-manifest.abc123.js''"
  by (simp_all add: sample_resolver_cdn sample_filename config_defs2)

subsection \<open>The list of imports\<close>

text \<open>
  C1. In every run that reaches the generation service (the import resolver returned
  \<open>ws\<close> and the manifest's file name was formed), the \<^verbatim>\<open>importScripts\<close> list passed to
  the service is exactly: the resolver's URLs when it returned more than one, in the
  resolver's order; then the user-declared \<^verbatim>\<open>importScripts\<close> in declared order; then
  the manifest URL, last. A single resolved URL is passed in the \<^verbatim>\<open>workboxSWImport\<close>
  slot and the pass does not add it to the list: it is an element of the list exactly
  when the user declared that very URL or it is the manifest URL.
\<close>

theorem importScripts_order:
  assumes "getWorkboxSWImports h (pushConfigWarning h cfg c) cfg = Inr ws"
    and "manifestFilenameOf h cfg (pushConfigWarning h cfg c) = Inr fname"
  shows "\<exists>sc. sent (handleEmit h cfg c) = Some sc
           \<and> sanitized_importScripts sc =
               (case ws of None \<Rightarrow> [] | Some urls \<Rightarrow> if 1 < length urls then urls else [])
               @ (case importScripts cfg of OneUrl u \<Rightarrow> [u] | UrlList us \<Rightarrow> us)
               @ [manifestURL h c (pathToManifestFileOf h cfg (pushConfigWarning h cfg c) fname)]
           \<and> sanitized_workboxSWImport sc =
               (case ws of None \<Rightarrow> None | Some urls \<Rightarrow> (case urls of [u] \<Rightarrow> Some u | _ \<Rightarrow> None))
           \<and> (\<forall>u. ws = Some [u] \<longrightarrow>
                 (u \<in> set (sanitized_importScripts sc) \<longleftrightarrow>
                    u \<in> set (case importScripts cfg of OneUrl u \<Rightarrow> [u] | UrlList us \<Rightarrow> us)
                    \<or> u = manifestURL h c
                            (pathToManifestFileOf h cfg (pushConfigWarning h cfg c) fname)))"
proof -
  let ?sc = "the (sent (handleEmit h cfg c))"
  have s: "sent (handleEmit h cfg c) = Some ?sc"
    using handleEmit_sent [OF assms] by simp
  have pre: "(case ws of None \<Rightarrow> [] | Some urls \<Rightarrow> if length urls = 1 then [] else urls)
      = (case ws of None \<Rightarrow> [] | Some urls \<Rightarrow> if 1 < length urls then urls else [])"
    by (cases ws) (auto simp: not_less le_Suc_eq)
  have l: "sanitized_importScripts ?sc =
      (case ws of None \<Rightarrow> [] | Some urls \<Rightarrow> if 1 < length urls then urls else [])
      @ (case importScripts cfg of OneUrl u \<Rightarrow> [u] | UrlList us \<Rightarrow> us)
      @ [manifestURL h c (pathToManifestFileOf h cfg (pushConfigWarning h cfg c) fname)]"
    using handleEmit_sent [OF assms] by (simp add: js_concat_single pre)
  have w: "sanitized_workboxSWImport ?sc =
      (case ws of None \<Rightarrow> None | Some urls \<Rightarrow> (case urls of [u] \<Rightarrow> Some u | _ \<Rightarrow> None))"
    using handleEmit_sent [OF assms]
    by (auto split: option.splits list.splits)
  have n: "\<forall>u. ws = Some [u] \<longrightarrow>
                 (u \<in> set (sanitized_importScripts ?sc) \<longleftrightarrow>
                    u \<in> set (case importScripts cfg of OneUrl u \<Rightarrow> [u] | UrlList us \<Rightarrow> us)
                    \<or> u = manifestURL h c
                            (pathToManifestFileOf h cfg (pushConfigWarning h cfg c) fname))"
    by (auto simp: l)
  from s l w n show ?thesis by blast
qed

theorem importScripts_order_witness:
  "(\<exists>sc. sent (handleEmit sample_helpers bundle_config sample_compilation) = Some sc
      \<and> sanitized_importScripts sc =
          [''a.js'', ''b.js'', ''extra.js'', ''/static/wb/precache-manifest.abc123.js'']
      \<and> sanitized_workboxSWImport sc = None)
   \<and> (\<exists>sc. sent (handleEmit sample_helpers sample_config sample_compilation) = Some sc
      \<and> sanitized_importScripts sc = [''extra.js'', ''/static/wb/precache-manifest.abc123.js'']
      \<and> sanitized_workboxSWImport sc = Some ''https://cdn.example/workbox-sw.js''
      \<and> ''https://cdn.example/workbox-sw.js'' \<notin> set (sanitized_importScripts sc))"
proof
  have r: "getWorkboxSWImports sample_helpers
             (pushConfigWarning sample_helpers bundle_config sample_compilation) bundle_config
           = Inr (Some [''a.js'', ''b.js''])"
    by (simp add: sample_resolver)
  have f: "manifestFilenameOf sample_helpers bundle_config
             (pushConfigWarning sample_helpers bundle_config sample_compilation)
           = Inr ''precache-manifest.abc123.js''"
    by (simp add: sample_filenames)
  have d: "importsDirectory bundle_config = ''wb''" "importScripts bundle_config = UrlList [''extra.js'']"
    by (simp_all add: config_defs)
  show "\<exists>sc. sent (handleEmit sample_helpers bundle_config sample_compilation) = Some sc
      \<and> sanitized_importScripts sc =
          [''a.js'', ''b.js'', ''extra.js'', ''/static/wb/precache-manifest.abc123.js'']
      \<and> sanitized_workboxSWImport sc = None"
    using importScripts_order [OF r f] by (simp add: sample_url d)
next
  have r: "getWorkboxSWImports sample_helpers
             (pushConfigWarning sample_helpers sample_config sample_compilation) sample_config
           = Inr (Some [''https://cdn.example/workbox-sw.js''])"
    by (simp add: sample_resolver)
  have f: "manifestFilenameOf sample_helpers sample_config
             (pushConfigWarning sample_helpers sample_config sample_compilation)
           = Inr ''precache-manifest.abc123.js''"
    by (simp add: sample_filenames)
  have d: "importsDirectory sample_config = ''wb''" "importScripts sample_config = UrlList [''extra.js'']"
    by (simp_all add: config_defs)
  show "\<exists>sc. sent (handleEmit sample_helpers sample_config sample_compilation) = Some sc
      \<and> sanitized_importScripts sc = [''extra.js'', ''/static/wb/precache-manifest.abc123.js'']
      \<and> sanitized_workboxSWImport sc = Some ''https://cdn.example/workbox-sw.js''
      \<and> ''https://cdn.example/workbox-sw.js'' \<notin> set (sanitized_importScripts sc)"
    using importScripts_order [OF r f] by (auto simp: sample_url d)
qed

text \<open>
  The pass never compares the declared URLs with the resolved one. With
  \<^verbatim>\<open>importWorkboxFrom: 'cdn'\<close> and the CDN URL declared in \<^verbatim>\<open>importScripts\<close>, the single
  resolved URL is in the slot and is an element of the list as well.
\<close>

theorem runtime_import_also_declared:
  "getWorkboxSWImports sample_helpers
     (pushConfigWarning sample_helpers cdn_declared_config sample_compilation)
     cdn_declared_config
   = Inr (Some [''https://cdn.example/workbox-sw.js''])
   \<and> sent (handleEmit sample_helpers cdn_declared_config sample_compilation) =
       Some \<lparr>sanitized_globPatterns = Some [],
             sanitized_importScripts =
               [''https://cdn.example/workbox-sw.js'',
                ''/static/wb/precache-manifest.abc123.js''],
             sanitized_workboxSWImport = Some ''https://cdn.example/workbox-sw.js''\<rparr>
   \<and> ''https://cdn.example/workbox-sw.js''
       \<in> set (sanitized_importScripts
                (the (sent (handleEmit sample_helpers cdn_declared_config sample_compilation))))"
proof -
  have r: "getWorkboxSWImports sample_helpers
             (pushConfigWarning sample_helpers cdn_declared_config sample_compilation)
             cdn_declared_config
           = Inr (Some [''https://cdn.example/workbox-sw.js''])"
    by (simp add: sample_resolver_cdn config_defs2)
  have f: "manifestFilenameOf sample_helpers cdn_declared_config
             (pushConfigWarning sample_helpers cdn_declared_config sample_compilation)
           = Inr ''precache-manifest.abc123.js''"
    by (simp add: sample_filename config_defs2)
  have d: "importsDirectory cdn_declared_config = ''wb''"
    "importScripts cdn_declared_config = UrlList [''https://cdn.example/workbox-sw.js'']"
    "globPatterns cdn_declared_config = None"
    by (simp_all add: config_defs2)
  have g: "sanitized_globPatterns (forGenerateSWString sample_helpers cdn_declared_config) = None"
    by (simp add: sample_helpers_def forGenerateSWString_spec_def d)
  have s: "sent (handleEmit sample_helpers cdn_declared_config sample_compilation) =
       Some \<lparr>sanitized_globPatterns = Some [],
             sanitized_importScripts =
               [''https://cdn.example/workbox-sw.js'',
                ''/static/wb/precache-manifest.abc123.js''],
             sanitized_workboxSWImport = Some ''https://cdn.example/workbox-sw.js''\<rparr>"
    using handleEmit_sent [OF r f] by (simp add: sample_url d g or_nil_def)
  from r s show ?thesis by simp
qed

text \<open>
  C2. When the resolver yields exactly one URL, the service is called with
  \<^verbatim>\<open>workboxSWImport\<close> set to that URL, and nothing is put in front of the
  \<^verbatim>\<open>importScripts\<close> list: it is the declared URLs followed by the manifest URL.
\<close>

theorem single_url_goes_to_workboxSWImport:
  assumes "getWorkboxSWImports h (pushConfigWarning h cfg c) cfg = Inr (Some [url])"
    and "manifestFilenameOf h cfg (pushConfigWarning h cfg c) = Inr fname"
  shows "\<exists>sc. sent (handleEmit h cfg c) = Some sc
           \<and> sanitized_workboxSWImport sc = Some url
           \<and> sanitized_importScripts sc =
               (case importScripts cfg of OneUrl u \<Rightarrow> [u] | UrlList us \<Rightarrow> us)
               @ [manifestURL h c (pathToManifestFileOf h cfg (pushConfigWarning h cfg c) fname)]"
  using handleEmit_sent [OF assms] by (simp add: js_concat_single)

theorem single_url_goes_to_workboxSWImport_witness:
  "\<exists>sc. sent (handleEmit sample_helpers single_url_config sample_compilation) = Some sc
      \<and> sanitized_workboxSWImport sc = Some ''https://cdn.example/workbox-sw.js''
      \<and> sanitized_importScripts sc = [''extra.js'', ''/static/wb/precache-manifest.abc123.js'']"
proof -
  have r: "getWorkboxSWImports sample_helpers
             (pushConfigWarning sample_helpers single_url_config sample_compilation)
             single_url_config
           = Inr (Some [''https://cdn.example/workbox-sw.js''])"
    by (simp add: sample_resolver)
  have f: "manifestFilenameOf sample_helpers single_url_config
             (pushConfigWarning sample_helpers single_url_config sample_compilation)
           = Inr ''precache-manifest.abc123.js''"
    by (simp add: sample_filenames)
  have d: "importsDirectory single_url_config = ''wb''"
    "importScripts single_url_config = OneUrl ''extra.js''"
    by (simp_all add: config_defs)
  show ?thesis
    using single_url_goes_to_workboxSWImport [OF r f] by (simp add: sample_url d)
qed

text \<open>
  C3. When the resolver yields no URL (\<^verbatim>\<open>null\<close>, as for \<^verbatim>\<open>importWorkboxFrom: 'disabled'\<close>),
  the service is called without \<^verbatim>\<open>workboxSWImport\<close>, and the \<^verbatim>\<open>importScripts\<close> list is
  the declared URLs followed by the manifest URL.
\<close>

theorem disabled_sets_no_import:
  assumes "getWorkboxSWImports h (pushConfigWarning h cfg c) cfg = Inr None"
    and "manifestFilenameOf h cfg (pushConfigWarning h cfg c) = Inr fname"
  shows "\<exists>sc. sent (handleEmit h cfg c) = Some sc
           \<and> sanitized_workboxSWImport sc = None
           \<and> sanitized_importScripts sc =
               (case importScripts cfg of OneUrl u \<Rightarrow> [u] | UrlList us \<Rightarrow> us)
               @ [manifestURL h c (pathToManifestFileOf h cfg (pushConfigWarning h cfg c) fname)]"
  using handleEmit_sent [OF assms] by (simp add: js_concat_single)

theorem disabled_sets_no_import_witness:
  "\<exists>sc. sent (handleEmit sample_helpers disabled_config sample_compilation) = Some sc
      \<and> sanitized_workboxSWImport sc = None
      \<and> sanitized_importScripts sc = [''extra.js'', ''/static/wb/precache-manifest.abc123.js'']"
proof -
  have r: "getWorkboxSWImports sample_helpers
             (pushConfigWarning sample_helpers disabled_config sample_compilation)
             disabled_config = Inr None"
    by (simp add: sample_resolver)
  have f: "manifestFilenameOf sample_helpers disabled_config
             (pushConfigWarning sample_helpers disabled_config sample_compilation)
           = Inr ''precache-manifest.abc123.js''"
    by (simp add: sample_filenames)
  have d: "importsDirectory disabled_config = ''wb''"
    "importScripts disabled_config = UrlList [''extra.js'']"
    by (simp_all add: config_defs)
  show ?thesis
    using disabled_sets_no_import [OF r f] by (simp add: sample_url d)
qed

subsection \<open>Fatal configuration errors\<close>

text \<open>
  C4. When the file name template of the manifest contains no hash placeholder, the
  pass is rejected before anything is registered: the promise rejects (with the
  resolver's error if the resolver failed first, with the missing-placeholder
  configuration error otherwise), the generation service is not called, and
  \<^verbatim>\<open>compilation.assets\<close> is what it was.
\<close>

theorem missing_placeholder_aborts_before_output:
  assumes "formatManifestFilename h = formatManifestFilename_spec placeholder"
    and "\<not> sublist placeholder (precacheManifestFilename cfg)"
  shows "handleEmit h cfg c =
           \<lparr>result =
              (case getWorkboxSWImports h (pushConfigWarning h cfg c) cfg of
                 Inl e \<Rightarrow> Inl e
               | Inr ws \<Rightarrow> Inl (ConfigurationError
                                  (MissingHashPlaceholder (precacheManifestFilename cfg)))),
            final = pushConfigWarning h cfg c,
            sent = None\<rparr>
         \<and> assets (final (handleEmit h cfg c)) = assets c"
proof (cases "getWorkboxSWImports h (pushConfigWarning h cfg c) cfg")
  case (Inl e)
  then show ?thesis
    by (simp add: handleEmit_resolver_rejects)
next
  case (Inr ws)
  then show ?thesis
    using manifestFilenameOf_spec_no_placeholder [OF assms, of "pushConfigWarning h cfg c"]
    by (simp add: handleEmit_formatter_throws)
qed

theorem missing_placeholder_aborts_before_output_witness:
  "result (handleEmit sample_helpers static_name_config sample_compilation)
     = Inl (ConfigurationError (MissingHashPlaceholder ''manifest.js''))
   \<and> sent (handleEmit sample_helpers static_name_config sample_compilation) = None
   \<and> assets (final (handleEmit sample_helpers static_name_config sample_compilation))
     = assets sample_compilation"
proof -
  have p: "formatManifestFilename sample_helpers = formatManifestFilename_spec ''[manifestHash]''"
    by (simp add: sample_helpers_def)
  have n: "\<not> sublist ''[manifestHash]'' (precacheManifestFilename static_name_config)"
    by (simp add: config_defs sublist_Cons_right)
  have t: "precacheManifestFilename static_name_config = ''manifest.js''"
    by (simp add: config_defs)
  show ?thesis
    using missing_placeholder_aborts_before_output [OF p n, of sample_compilation]
    by (simp add: sample_resolver t)
qed

text \<open>
  C5. When \<^verbatim>\<open>importWorkboxFrom\<close> names a bundle of the build that has no script file,
  the pass is rejected with a configuration error: the generation service is not
  called and \<^verbatim>\<open>compilation.assets\<close> is what it was.
\<close>

theorem zero_script_bundle_aborts:
  assumes "getWorkboxSWImports h = getWorkboxSWImports_spec cdnUrl localUrl isScript"
    and "importWorkboxFrom cfg \<notin> {''disabled'', ''cdn'', ''local''}"
    and "chunks c (importWorkboxFrom cfg) = Some files"
    and "filter isScript files = []"
  shows "handleEmit h cfg c =
           \<lparr>result = Inl (ConfigurationError (BundleHasNoScript (importWorkboxFrom cfg))),
            final = pushConfigWarning h cfg c,
            sent = None\<rparr>
         \<and> assets (final (handleEmit h cfg c)) = assets c"
proof -
  have "getWorkboxSWImports h (pushConfigWarning h cfg c) cfg =
          Inl (ConfigurationError (BundleHasNoScript (importWorkboxFrom cfg)))"
    using assms by (simp add: getWorkboxSWImports_spec_def)
  then show ?thesis
    by (simp add: handleEmit_resolver_rejects)
qed

theorem zero_script_bundle_aborts_witness:
  "handleEmit sample_helpers styles_config sample_compilation =
     \<lparr>result = Inl (ConfigurationError (BundleHasNoScript ''styles'')),
      final = sample_compilation,
      sent = None\<rparr>"
proof -
  have r: "getWorkboxSWImports sample_helpers =
             getWorkboxSWImports_spec ''https://cdn.example/workbox-sw.js''
               ''workbox-v3/workbox-sw.js'' (\<lambda>file. suffix ''.js'' file)"
    by (simp add: sample_helpers_def)
  have n: "importWorkboxFrom styles_config \<notin> {''disabled'', ''cdn'', ''local''}"
    by (simp add: config_defs)
  have k: "chunks sample_compilation (importWorkboxFrom styles_config) = Some [''main.css'']"
    by (simp add: config_defs sample_compilation_def)
  have z: "filter (\<lambda>file. suffix ''.js'' file) [''main.css''] = []"
    by (simp add: suffix_to_prefix)
  have i: "importWorkboxFrom styles_config = ''styles''"
    by (simp add: config_defs)
  show ?thesis
    using zero_script_bundle_aborts [OF r n k z] by (simp add: i)
qed

subsection \<open>The sanitized configuration\<close>

text \<open>
  C6. With a sanitizer that hands \<^verbatim>\<open>globPatterns\<close> through, the configuration passed
  to the generation service always has \<^verbatim>\<open>globPatterns\<close> set: to the empty list when
  the configuration has none, and to the configured list otherwise.
\<close>

theorem globPatterns_default:
  assumes "getWorkboxSWImports h (pushConfigWarning h cfg c) cfg = Inr ws"
    and "manifestFilenameOf h cfg (pushConfigWarning h cfg c) = Inr fname"
    and "sanitized_globPatterns (forGenerateSWString h cfg) = globPatterns cfg"
  shows "\<exists>sc. sent (handleEmit h cfg c) = Some sc
           \<and> sanitized_globPatterns sc \<noteq> None
           \<and> (globPatterns cfg = None \<longrightarrow> sanitized_globPatterns sc = Some [])
           \<and> (\<forall>patterns. globPatterns cfg = Some patterns
                \<longrightarrow> sanitized_globPatterns sc = Some patterns)"
  using handleEmit_sent [OF assms(1,2)] assms(3) by (simp add: or_nil_def)

theorem globPatterns_default_witness:
  "(\<exists>sc. sent (handleEmit sample_helpers sample_config sample_compilation) = Some sc
      \<and> sanitized_globPatterns sc = Some [])
   \<and> (\<exists>sc. sent (handleEmit sample_helpers globs_config sample_compilation) = Some sc
      \<and> sanitized_globPatterns sc = Some [''**/*.html''])"
proof
  have r: "getWorkboxSWImports sample_helpers
             (pushConfigWarning sample_helpers sample_config sample_compilation) sample_config
           = Inr (Some [''https://cdn.example/workbox-sw.js''])"
    by (simp add: sample_resolver)
  have f: "manifestFilenameOf sample_helpers sample_config
             (pushConfigWarning sample_helpers sample_config sample_compilation)
           = Inr ''precache-manifest.abc123.js''"
    by (simp add: sample_filenames)
  have g: "sanitized_globPatterns (forGenerateSWString sample_helpers sample_config)
           = globPatterns sample_config"
    by (simp add: sample_helpers_def forGenerateSWString_spec_def)
  have o: "globPatterns sample_config = None"
    by (simp add: sample_config_def)
  show "\<exists>sc. sent (handleEmit sample_helpers sample_config sample_compilation) = Some sc
      \<and> sanitized_globPatterns sc = Some []"
    using globPatterns_default [OF r f g] by (auto simp: o)
next
  have r: "getWorkboxSWImports sample_helpers
             (pushConfigWarning sample_helpers globs_config sample_compilation) globs_config
           = Inr (Some [''https://cdn.example/workbox-sw.js''])"
    by (simp add: sample_resolver_cdn config_defs)
  have f: "manifestFilenameOf sample_helpers globs_config
             (pushConfigWarning sample_helpers globs_config sample_compilation)
           = Inr ''precache-manifest.abc123.js''"
    by (simp add: sample_filename config_defs)
  have g: "sanitized_globPatterns (forGenerateSWString sample_helpers globs_config)
           = globPatterns globs_config"
    by (simp add: sample_helpers_def forGenerateSWString_spec_def)
  have o: "globPatterns globs_config = Some [''**/*.html'']"
    by (simp add: config_defs)
  show "\<exists>sc. sent (handleEmit sample_helpers globs_config sample_compilation) = Some sc
      \<and> sanitized_globPatterns sc = Some [''**/*.html'']"
    using globPatterns_default [OF r f g] by (auto simp: o)
qed

subsection \<open>The manifest: its URL and its asset\<close>

text \<open>
  C7. The manifest URL, the last element of the \<^verbatim>\<open>importScripts\<close> list, is the public
  path followed by the manifest's path with every path separator replaced by a
  forward slash; that path is the file name joined to \<^verbatim>\<open>importsDirectory\<close> and made
  relative to the output directory. The manifest asset is assigned in
  \<^verbatim>\<open>compilation.assets\<close> under that path, and it is what the build output holds there
  when the pass settles, unless the destination of the generated script is that same
  path: the script, assigned afterwards, then replaces it.
\<close>

theorem manifest_url_and_asset:
  assumes "getWorkboxSWImports h (pushConfigWarning h cfg c) cfg = Inr ws"
    and "manifestFilenameOf h cfg (pushConfigWarning h cfg c) = Inr fname"
  shows "\<exists>sc. sent (handleEmit h cfg c) = Some sc
           \<and> last (sanitized_importScripts sc) =
               or_empty (publicPath c)
               @ map (\<lambda>ch. if ch = path_sep h then CHR ''/'' else ch)
                   (relativeToOutputPath h (pushConfigWarning h cfg c)
                      (path_join h (importsDirectory cfg) fname))
           \<and> assets (final (handleEmit h cfg c))
                 (relativeToOutputPath h (pushConfigWarning h cfg c)
                    (path_join h (importsDirectory cfg) fname)) =
               (case generateSWString h sc of
                  Inl e \<Rightarrow> Some (manifestAssetOf h cfg (pushConfigWarning h cfg c))
                | Inr (swString, generated_warnings) \<Rightarrow>
                    (if relativeToOutputPath h
                          ((pushConfigWarning h cfg c)
                             \<lparr>assets := (assets c)
                                (relativeToOutputPath h (pushConfigWarning h cfg c)
                                   (path_join h (importsDirectory cfg) fname)
                                 \<mapsto> manifestAssetOf h cfg (pushConfigWarning h cfg c)),
                              warnings := warnings (pushConfigWarning h cfg c)
                                            @ or_nil generated_warnings\<rparr>)
                          (swDest cfg)
                        = relativeToOutputPath h (pushConfigWarning h cfg c)
                            (path_join h (importsDirectory cfg) fname)
                     then Some (convertStringToAsset h swString)
                     else Some (manifestAssetOf h cfg (pushConfigWarning h cfg c))))"
proof -
  let ?sc = "the (sent (handleEmit h cfg c))"
  have s: "sent (handleEmit h cfg c) = Some ?sc"
    using handleEmit_sent [OF assms] by simp
  have u: "last (sanitized_importScripts ?sc) =
             or_empty (publicPath c)
             @ map (\<lambda>ch. if ch = path_sep h then CHR ''/'' else ch)
                 (relativeToOutputPath h (pushConfigWarning h cfg c)
                    (path_join h (importsDirectory cfg) fname))"
    using handleEmit_sent [OF assms]
    by (simp add: manifestURL_def pathToManifestFileOf_def js_join_split)
  have a: "assets (final (handleEmit h cfg c))
                 (relativeToOutputPath h (pushConfigWarning h cfg c)
                    (path_join h (importsDirectory cfg) fname)) =
               (case generateSWString h ?sc of
                  Inl e \<Rightarrow> Some (manifestAssetOf h cfg (pushConfigWarning h cfg c))
                | Inr (swString, generated_warnings) \<Rightarrow>
                    (if relativeToOutputPath h
                          ((pushConfigWarning h cfg c)
                             \<lparr>assets := (assets c)
                                (relativeToOutputPath h (pushConfigWarning h cfg c)
                                   (path_join h (importsDirectory cfg) fname)
                                 \<mapsto> manifestAssetOf h cfg (pushConfigWarning h cfg c)),
                              warnings := warnings (pushConfigWarning h cfg c)
                                            @ or_nil generated_warnings\<rparr>)
                          (swDest cfg)
                        = relativeToOutputPath h (pushConfigWarning h cfg c)
                            (path_join h (importsDirectory cfg) fname)
                     then Some (convertStringToAsset h swString)
                     else Some (manifestAssetOf h cfg (pushConfigWarning h cfg c))))"
  proof (cases "generateSWString h ?sc")
    case (Inl e)
    then show ?thesis
      using handleEmit_final_assets [OF assms s] by (simp add: pathToManifestFileOf_def)
  next
    case (Inr r)
    obtain swString gw where r: "r = (swString, gw)" by (cases r)
    show ?thesis
      using handleEmit_final_assets [OF assms s] Inr r
      by (simp add: pathToManifestFileOf_def)
  qed
  from s u a show ?thesis by blast
qed

theorem manifest_url_and_asset_witness:
  "\<exists>sc. sent (handleEmit sample_helpers sample_config sample_compilation) = Some sc
      \<and> last (sanitized_importScripts sc) = ''/static/wb/precache-manifest.abc123.js''
      \<and> assets (final (handleEmit sample_helpers sample_config sample_compilation))
            (''wb'' @ [backslash] @ ''precache-manifest.abc123.js'') = Some ''app.js''"
proof -
  have r: "getWorkboxSWImports sample_helpers
             (pushConfigWarning sample_helpers sample_config sample_compilation) sample_config
           = Inr (Some [''https://cdn.example/workbox-sw.js''])"
    by (simp add: sample_resolver)
  have f: "manifestFilenameOf sample_helpers sample_config
             (pushConfigWarning sample_helpers sample_config sample_compilation)
           = Inr ''precache-manifest.abc123.js''"
    by (simp add: sample_filenames)
  have d: "importsDirectory sample_config = ''wb''" "swDest sample_config = ''service-worker.js''"
    by (simp_all add: sample_config_def)
  have p: "or_empty (publicPath sample_compilation) = ''/static/''"
    by (simp add: sample_compilation_def or_empty_def)
  have m: "map (\<lambda>ch. if ch = path_sep sample_helpers then CHR ''/'' else ch)
             (''wb'' @ [backslash] @ ''precache-manifest.abc123.js'')
           = ''wb/precache-manifest.abc123.js''"
    by (simp add: sample_helpers_def backslash_def)
  show ?thesis
    using manifest_url_and_asset [OF r f]
    by (simp only: sample_no_warning sample_relative sample_manifest_asset d p m) simp
qed

text \<open>
  With \<^verbatim>\<open>swDest\<close> set to the manifest's own path, the pass resolves and the build
  output holds the generated script, not the manifest asset, under the manifest's
  path.
\<close>

theorem script_replaces_manifest:
  "manifestAssetOf sample_helpers overwrite_config sample_compilation = ''app.js''
   \<and> pathToManifestFileOf sample_helpers overwrite_config sample_compilation
         ''precache-manifest.abc123.js''
       = ''wb'' @ [backslash] @ ''precache-manifest.abc123.js''
   \<and> result (handleEmit sample_helpers overwrite_config sample_compilation) = Inr ()
   \<and> assets (final (handleEmit sample_helpers overwrite_config sample_compilation))
         (''wb'' @ [backslash] @ ''precache-manifest.abc123.js'') = Some ''importScripts()''"
proof -
  obtain sc where
    s: "sent (handleEmit sample_helpers overwrite_config sample_compilation) = Some sc"
    using handleEmit_sent [OF overwrite_facts(1,2)] by simp
  have ok: "result (handleEmit sample_helpers overwrite_config sample_compilation) = Inr ()"
    using handleEmit_result [OF overwrite_facts(1,2) s] by (simp add: sample_relative)
  have p: "pathToManifestFileOf sample_helpers overwrite_config sample_compilation
             ''precache-manifest.abc123.js''
           = ''wb'' @ [backslash] @ ''precache-manifest.abc123.js''"
    by (simp add: sample_path overwrite_facts)
  have a: "assets (final (handleEmit sample_helpers overwrite_config sample_compilation))
             (''wb'' @ [backslash] @ ''precache-manifest.abc123.js'') = Some ''importScripts()''"
    using handleEmit_final_assets [OF overwrite_facts(1,2) s]
    by (simp add: sample_relative overwrite_facts)
  from ok p a show ?thesis
    by (simp add: sample_manifest_asset)
qed

subsection \<open>The declared imports\<close>

text \<open>
  C8. The declared \<^verbatim>\<open>importScripts\<close> value is normalized to a list: a single URL
  becomes the one-element list, an array is taken as it is, in its order. Between the
  URLs put in front for an ambiguous bundle and the manifest URL, the list passed to
  the service holds these URLs and nothing else.
\<close>

theorem importScripts_normalized:
  assumes "getWorkboxSWImports h (pushConfigWarning h cfg c) cfg = Inr ws"
    and "manifestFilenameOf h cfg (pushConfigWarning h cfg c) = Inr fname"
  shows "\<exists>sc. sent (handleEmit h cfg c) = Some sc
           \<and> (\<forall>u. importScripts cfg = OneUrl u \<longrightarrow>
                 sanitized_importScripts sc =
                   (case ws of None \<Rightarrow> [] | Some urls \<Rightarrow> if length urls = 1 then [] else urls)
                   @ [u]
                   @ [manifestURL h c
                        (pathToManifestFileOf h cfg (pushConfigWarning h cfg c) fname)])
           \<and> (\<forall>us. importScripts cfg = UrlList us \<longrightarrow>
                 sanitized_importScripts sc =
                   (case ws of None \<Rightarrow> [] | Some urls \<Rightarrow> if length urls = 1 then [] else urls)
                   @ us
                   @ [manifestURL h c
                        (pathToManifestFileOf h cfg (pushConfigWarning h cfg c) fname)])"
  using handleEmit_sent [OF assms] by simp

theorem importScripts_normalized_witness:
  "(\<exists>sc. sent (handleEmit sample_helpers single_url_config sample_compilation) = Some sc
      \<and> sanitized_importScripts sc = [''extra.js'', ''/static/wb/precache-manifest.abc123.js''])
   \<and> (\<exists>sc. sent (handleEmit sample_helpers two_urls_config sample_compilation) = Some sc
      \<and> sanitized_importScripts sc =
          [''first.js'', ''second.js'', ''/static/wb/precache-manifest.abc123.js''])"
proof
  have r: "getWorkboxSWImports sample_helpers
             (pushConfigWarning sample_helpers single_url_config sample_compilation)
             single_url_config
           = Inr (Some [''https://cdn.example/workbox-sw.js''])"
    by (simp add: sample_resolver)
  have f: "manifestFilenameOf sample_helpers single_url_config
             (pushConfigWarning sample_helpers single_url_config sample_compilation)
           = Inr ''precache-manifest.abc123.js''"
    by (simp add: sample_filenames)
  have d: "importsDirectory single_url_config = ''wb''"
    "importScripts single_url_config = OneUrl ''extra.js''"
    by (simp_all add: config_defs)
  show "\<exists>sc. sent (handleEmit sample_helpers single_url_config sample_compilation) = Some sc
      \<and> sanitized_importScripts sc = [''extra.js'', ''/static/wb/precache-manifest.abc123.js'']"
    using importScripts_normalized [OF r f] by (auto simp: sample_url d)
next
  have r: "getWorkboxSWImports sample_helpers
             (pushConfigWarning sample_helpers two_urls_config sample_compilation)
             two_urls_config
           = Inr (Some [''https://cdn.example/workbox-sw.js''])"
    by (simp add: sample_resolver_cdn config_defs)
  have f: "manifestFilenameOf sample_helpers two_urls_config
             (pushConfigWarning sample_helpers two_urls_config sample_compilation)
           = Inr ''precache-manifest.abc123.js''"
    by (simp add: sample_filename config_defs)
  have d: "importsDirectory two_urls_config = ''wb''"
    "importScripts two_urls_config = UrlList [''first.js'', ''second.js'']"
    by (simp_all add: config_defs)
  show "\<exists>sc. sent (handleEmit sample_helpers two_urls_config sample_compilation) = Some sc
      \<and> sanitized_importScripts sc =
          [''first.js'', ''second.js'', ''/static/wb/precache-manifest.abc123.js'']"
    using importScripts_normalized [OF r f] by (auto simp: sample_url d)
qed

subsection \<open>What the pass does to the build output\<close>

text \<open>
  C9. The pass never removes a key of \<^verbatim>\<open>compilation.assets\<close>, and it assigns at most
  twice, however it ends. Rejected by the resolver or by the file name formatter, it
  leaves the assets as they were; rejected by the generation service, it has assigned
  the manifest asset under the manifest's path and nothing else; resolved, it has
  assigned the manifest asset under the manifest's path and then the generated script
  under \<^verbatim>\<open>swDest\<close> relative to the output directory, overwriting what was there.
  Every other key is mapped as before. The two assignments are to two keys unless
  the two paths coincide.
\<close>

theorem assets_frame:
  "(case getWorkboxSWImports h (pushConfigWarning h cfg c) cfg of
      Inl e \<Rightarrow>
        result (handleEmit h cfg c) = Inl e
        \<and> assets (final (handleEmit h cfg c)) = assets c
    | Inr ws \<Rightarrow>
        (case manifestFilenameOf h cfg (pushConfigWarning h cfg c) of
           Inl e \<Rightarrow>
             result (handleEmit h cfg c) = Inl e
             \<and> assets (final (handleEmit h cfg c)) = assets c
         | Inr fname \<Rightarrow>
             (\<exists>sc. sent (handleEmit h cfg c) = Some sc
                \<and> (case generateSWString h sc of
                      Inl e \<Rightarrow>
                        result (handleEmit h cfg c) = Inl e
                        \<and> assets (final (handleEmit h cfg c)) =
                            (assets c)
                              (pathToManifestFileOf h cfg (pushConfigWarning h cfg c) fname
                                 \<mapsto> manifestAssetOf h cfg (pushConfigWarning h cfg c))
                    | Inr (swString, generated_warnings) \<Rightarrow>
                        result (handleEmit h cfg c) = Inr ()
                        \<and> assets (final (handleEmit h cfg c)) =
                            (assets c)
                              (pathToManifestFileOf h cfg (pushConfigWarning h cfg c) fname
                                 \<mapsto> manifestAssetOf h cfg (pushConfigWarning h cfg c),
                               relativeToOutputPath h
                                 ((pushConfigWarning h cfg c)
                                    \<lparr>assets := (assets c)
                                       (pathToManifestFileOf h cfg
                                          (pushConfigWarning h cfg c) fname
                                        \<mapsto> manifestAssetOf h cfg (pushConfigWarning h cfg c)),
                                     warnings := warnings (pushConfigWarning h cfg c)
                                                   @ or_nil generated_warnings\<rparr>)
                                 (swDest cfg)
                                 \<mapsto> convertStringToAsset h swString)))))
   \<and> dom (assets c) \<subseteq> dom (assets (final (handleEmit h cfg c)))"
proof (cases "getWorkboxSWImports h (pushConfigWarning h cfg c) cfg")
  case (Inl e)
  then show ?thesis
    by (simp add: handleEmit_resolver_rejects)
next
  case R: (Inr ws)
  show ?thesis
  proof (cases "manifestFilenameOf h cfg (pushConfigWarning h cfg c)")
    case (Inl e)
    with R show ?thesis
      by (simp add: handleEmit_formatter_throws)
  next
    case F: (Inr fname)
    let ?sc = "the (sent (handleEmit h cfg c))"
    let ?p = "pathToManifestFileOf h cfg (pushConfigWarning h cfg c) fname"
    let ?m = "manifestAssetOf h cfg (pushConfigWarning h cfg c)"
    have s: "sent (handleEmit h cfg c) = Some ?sc"
      using handleEmit_sent [OF R F] by simp
    show ?thesis
    proof (cases "generateSWString h ?sc")
      case (Inl e)
      have a: "assets (final (handleEmit h cfg c)) = (assets c)(?p \<mapsto> ?m)"
        using handleEmit_final_assets [OF R F s] Inl by simp
      have ko: "result (handleEmit h cfg c) = Inl e"
        using handleEmit_result [OF R F s] Inl by simp
      have grow: "dom (assets c) \<subseteq> dom (assets (final (handleEmit h cfg c)))"
        by (auto simp: a)
      have inner: "\<exists>sc. sent (handleEmit h cfg c) = Some sc
                \<and> (case generateSWString h sc of
                      Inl e \<Rightarrow>
                        result (handleEmit h cfg c) = Inl e
                        \<and> assets (final (handleEmit h cfg c)) =
                            (assets c)
                              (pathToManifestFileOf h cfg (pushConfigWarning h cfg c) fname
                                 \<mapsto> manifestAssetOf h cfg (pushConfigWarning h cfg c))
                    | Inr (swString, generated_warnings) \<Rightarrow>
                        result (handleEmit h cfg c) = Inr ()
                        \<and> assets (final (handleEmit h cfg c)) =
                            (assets c)
                              (pathToManifestFileOf h cfg (pushConfigWarning h cfg c) fname
                                 \<mapsto> manifestAssetOf h cfg (pushConfigWarning h cfg c),
                               relativeToOutputPath h
                                 ((pushConfigWarning h cfg c)
                                    \<lparr>assets := (assets c)
                                       (pathToManifestFileOf h cfg
                                          (pushConfigWarning h cfg c) fname
                                        \<mapsto> manifestAssetOf h cfg (pushConfigWarning h cfg c)),
                                     warnings := warnings (pushConfigWarning h cfg c)
                                                   @ or_nil generated_warnings\<rparr>)
                                 (swDest cfg)
                                 \<mapsto> convertStringToAsset h swString))"
        by (rule exI [of _ ?sc], rule conjI, rule s, simp add: Inl a ko)
      from inner grow show ?thesis
        by (simp add: R F)
    next
      case (Inr r)
      obtain swString gw where r: "r = (swString, gw)" by (cases r)
      let ?c3 = "(pushConfigWarning h cfg c)
                   \<lparr>assets := (assets c)(?p \<mapsto> ?m),
                    warnings := warnings (pushConfigWarning h cfg c) @ or_nil gw\<rparr>"
      have a: "assets (final (handleEmit h cfg c)) =
                 (assets c)(?p \<mapsto> ?m,
                            relativeToOutputPath h ?c3 (swDest cfg)
                              \<mapsto> convertStringToAsset h swString)"
        using handleEmit_final_assets [OF R F s] Inr r by simp
      have ok: "result (handleEmit h cfg c) = Inr ()"
        using handleEmit_result [OF R F s] Inr by simp
      have grow: "dom (assets c) \<subseteq> dom (assets (final (handleEmit h cfg c)))"
        by (auto simp: a)
      have inner: "\<exists>sc. sent (handleEmit h cfg c) = Some sc
                \<and> (case generateSWString h sc of
                      Inl e \<Rightarrow>
                        result (handleEmit h cfg c) = Inl e
                        \<and> assets (final (handleEmit h cfg c)) =
                            (assets c)
                              (pathToManifestFileOf h cfg (pushConfigWarning h cfg c) fname
                                 \<mapsto> manifestAssetOf h cfg (pushConfigWarning h cfg c))
                    | Inr (swString, generated_warnings) \<Rightarrow>
                        result (handleEmit h cfg c) = Inr ()
                        \<and> assets (final (handleEmit h cfg c)) =
                            (assets c)
                              (pathToManifestFileOf h cfg (pushConfigWarning h cfg c) fname
                                 \<mapsto> manifestAssetOf h cfg (pushConfigWarning h cfg c),
                               relativeToOutputPath h
                                 ((pushConfigWarning h cfg c)
                                    \<lparr>assets := (assets c)
                                       (pathToManifestFileOf h cfg
                                          (pushConfigWarning h cfg c) fname
                                        \<mapsto> manifestAssetOf h cfg (pushConfigWarning h cfg c)),
                                     warnings := warnings (pushConfigWarning h cfg c)
                                                   @ or_nil generated_warnings\<rparr>)
                                 (swDest cfg)
                                 \<mapsto> convertStringToAsset h swString))"
        by (rule exI [of _ ?sc], rule conjI, rule s, simp add: Inr r a ok)
      from inner grow show ?thesis
        by (simp add: R F)
    qed
  qed
qed

theorem assets_frame_witness:
  "result (handleEmit sample_helpers sample_config sample_compilation) = Inr ()
   \<and> assets (final (handleEmit sample_helpers sample_config sample_compilation)) =
       (assets sample_compilation)
         (''wb'' @ [backslash] @ ''precache-manifest.abc123.js'' \<mapsto> ''app.js'',
          ''service-worker.js'' \<mapsto> ''importScripts()'')
   \<and> dom (assets sample_compilation)
       \<subseteq> dom (assets (final (handleEmit sample_helpers sample_config sample_compilation)))"
proof -
  have r: "getWorkboxSWImports sample_helpers
             (pushConfigWarning sample_helpers sample_config sample_compilation) sample_config
           = Inr (Some [''https://cdn.example/workbox-sw.js''])"
    by (simp add: sample_resolver)
  have f: "manifestFilenameOf sample_helpers sample_config
             (pushConfigWarning sample_helpers sample_config sample_compilation)
           = Inr ''precache-manifest.abc123.js''"
    by (simp add: sample_filenames)
  have d: "importsDirectory sample_config = ''wb''" "swDest sample_config = ''service-worker.js''"
    by (simp_all add: sample_config_def)
  have p: "pathToManifestFileOf sample_helpers sample_config c ''precache-manifest.abc123.js''
           = ''wb'' @ [backslash] @ ''precache-manifest.abc123.js''" for c
    by (simp add: sample_path d)
  show ?thesis
    using assets_frame [of sample_helpers sample_config sample_compilation]
    by (simp only: sample_resolver(1) sample_filenames(1) sum.case sample_relative prod.case p
          sample_manifest_asset d sample_no_warning) auto
qed

text \<open>
  With \<^verbatim>\<open>swDest\<close> set to the manifest's own path, the resolved pass has written one
  key, not two: the build output is the original entry and the generated script
  under the manifest's path.
\<close>

theorem one_key_written:
  "result (handleEmit sample_helpers overwrite_config sample_compilation) = Inr ()
   \<and> assets (final (handleEmit sample_helpers overwrite_config sample_compilation)) =
       [''app.js'' \<mapsto> ''console.log(1)'',
        ''wb'' @ [backslash] @ ''precache-manifest.abc123.js'' \<mapsto> ''importScripts()'']"
proof -
  obtain sc where
    s: "sent (handleEmit sample_helpers overwrite_config sample_compilation) = Some sc"
    using handleEmit_sent [OF overwrite_facts(1,2)] by simp
  have ok: "result (handleEmit sample_helpers overwrite_config sample_compilation) = Inr ()"
    using handleEmit_result [OF overwrite_facts(1,2) s] by (simp add: sample_relative)
  have a: "assets (final (handleEmit sample_helpers overwrite_config sample_compilation)) =
       [''app.js'' \<mapsto> ''console.log(1)'',
        ''wb'' @ [backslash] @ ''precache-manifest.abc123.js'' \<mapsto> ''importScripts()'']"
    using handleEmit_final_assets [OF overwrite_facts(1,2) s]
    by (simp add: sample_relative overwrite_facts sample_path sample_compilation_def)
  from ok a show ?thesis by simp
qed

subsection \<open>A build without public path\<close>

text \<open>
  C10. When the build declares no public path, the manifest URL is the manifest's path
  with forward slashes and nothing in front.
\<close>

theorem no_public_path_url:
  assumes "getWorkboxSWImports h (pushConfigWarning h cfg c) cfg = Inr ws"
    and "manifestFilenameOf h cfg (pushConfigWarning h cfg c) = Inr fname"
    and "publicPath c = None"
  shows "\<exists>sc. sent (handleEmit h cfg c) = Some sc
           \<and> last (sanitized_importScripts sc) =
               map (\<lambda>ch. if ch = path_sep h then CHR ''/'' else ch)
                 (pathToManifestFileOf h cfg (pushConfigWarning h cfg c) fname)"
  using handleEmit_sent [OF assms(1,2)] assms(3)
  by (simp add: manifestURL_def or_empty_def js_join_split)

theorem no_public_path_url_witness:
  "\<exists>sc. sent (handleEmit sample_helpers sample_config bare_compilation) = Some sc
      \<and> last (sanitized_importScripts sc) = ''wb/precache-manifest.abc123.js''"
proof -
  have r: "getWorkboxSWImports sample_helpers
             (pushConfigWarning sample_helpers sample_config bare_compilation) sample_config
           = Inr (Some [''https://cdn.example/workbox-sw.js''])"
    by (simp add: sample_resolver_cdn sample_config_def)
  have f: "manifestFilenameOf sample_helpers sample_config
             (pushConfigWarning sample_helpers sample_config bare_compilation)
           = Inr ''precache-manifest.abc123.js''"
    by (simp add: sample_filenames)
  have n: "publicPath bare_compilation = None"
    by (simp add: bare_compilation_def)
  have d: "importsDirectory sample_config = ''wb''"
    by (simp add: sample_config_def)
  show ?thesis
    using no_public_path_url [OF r f n] by (simp add: sample_slashes d)
qed

end
